theory Spec2Isabelle
  imports Complex_Main "HOL-Library.AList"
begin

section \<open>Values exchanged with the HTTP library\<close>

text \<open>
  The values that \<^verbatim>\<open>response.json()\<close> can produce and that \<^verbatim>\<open>json=body\<close> can
  carry. A Python dict is the list of its items in iteration order. \<open>JFloat\<close> holds a
  finite float by its exact value; \<open>JNonFinite\<close> stands for the non-finite floats
  (NaN and the infinities), which never compare equal to an integer.
\<close>

datatype json =
    JNull
  | JBool bool
  | JInt int
  | JFloat real
  | JNonFinite
  | JStr string
  | JList "json list"
  | JObj "(string \<times> json) list"

text \<open>Python's truth value of such a value, as \<^verbatim>\<open>if body:\<close> tests it.\<close>

fun truthy :: "json \<Rightarrow> bool" where
  "truthy JNull = False"
| "truthy (JBool b) = b"
| "truthy (JInt n) = (n \<noteq> 0)"
| "truthy (JFloat x) = (x \<noteq> 0)"
| "truthy JNonFinite = True"
| "truthy (JStr s) = (s \<noteq> [])"
| "truthy (JList xs) = (xs \<noteq> [])"
| "truthy (JObj kvs) = (kvs \<noteq> [])"

text \<open>Python's \<^verbatim>\<open>v == n\<close> for an integer literal \<open>n\<close>.\<close>

fun py_eq_int :: "json \<Rightarrow> int \<Rightarrow> bool" where
  "py_eq_int (JInt m) n = (m = n)"
| "py_eq_int (JFloat x) n = (x = of_int n)"
| "py_eq_int (JBool b) n = ((if b then 1 else 0) = n)"
| "py_eq_int JNull n = False"
| "py_eq_int JNonFinite n = False"
| "py_eq_int (JStr s) n = False"
| "py_eq_int (JList xs) n = False"
| "py_eq_int (JObj kvs) n = False"

type_synonym headers = "(string \<times> string) list"

type_synonym query = "(string \<times> string) list"

text \<open>
  A \<^verbatim>\<open>requests.Response\<close> as the client reads it: the attributes \<^verbatim>\<open>status_code\<close>
  and \<^verbatim>\<open>headers\<close>, and what the call \<^verbatim>\<open>response.json()\<close> gives: the parsed value,
  or \<open>None\<close> when the body does not parse and the call raises.
\<close>

record response =
  status_code :: int
  headers :: headers
  json :: "json option"

text \<open>The dict \<^verbatim>\<open>request\<close> returns: the keys status_code, headers and body.\<close>

record response_result =
  res_status_code :: int
  res_headers :: headers
  res_body :: json

text \<open>
  Everything the code can raise. The first three are the exceptions of
  \<^verbatim>\<open>models.exception\<close>; \<open>JSONDecodeError\<close> is raised by \<^verbatim>\<open>response.json()\<close>,
  \<open>AttributeError\<close> by \<^verbatim>\<open>.get\<close> on a value that is not a dict, \<open>KeyError\<close> by a
  subscript on a missing key, \<open>TypeError\<close> by \<^verbatim>\<open>clean_kwargs\<close> (with its message), and
  \<open>TransportError\<close> is whatever \<^verbatim>\<open>session.request\<close> itself raises.
\<close>

datatype error =
    InvalidHttpMethodError
  | ResourceNotFoundError
  | HttpCodeError response
  | JSONDecodeError
  | AttributeError
  | KeyError string
  | TypeError string
  | TransportError string

text \<open>\<^verbatim>\<open>d.get(k)\<close>: only a dict has the method; a missing key gives \<^verbatim>\<open>None\<close>.\<close>

fun py_get :: "json \<Rightarrow> string \<Rightarrow> error + json" where
  "py_get (JObj kvs) k = Inr (case map_of kvs k of None \<Rightarrow> JNull | Some v \<Rightarrow> v)"
| "py_get JNull k = Inl AttributeError"
| "py_get (JBool b) k = Inl AttributeError"
| "py_get (JInt n) k = Inl AttributeError"
| "py_get (JFloat x) k = Inl AttributeError"
| "py_get JNonFinite k = Inl AttributeError"
| "py_get (JStr s) k = Inl AttributeError"
| "py_get (JList xs) k = Inl AttributeError"

section \<open>Response validation\<close>

text \<open>
  The first test of \<^verbatim>\<open>validate_response\<close> reads \<^verbatim>\<open>response.json\<close> without calling
  it: that is the bound method object, whose truth value is \<open>True\<close> whatever the body
  holds.
\<close>

definition json_attribute_truthy :: "response \<Rightarrow> bool" where
  "json_attribute_truthy r = True"

definition validate_response :: "response \<Rightarrow> error + response" where
  "validate_response r =
     (if 200 \<le> status_code r \<and> status_code r < 205 \<and> json_attribute_truthy r then Inr r
      else if status_code r = 400 then
        (case json r of
           None \<Rightarrow> Inl JSONDecodeError
         | Some j \<Rightarrow>
             (case py_get j ''error'' of
                Inl e \<Rightarrow> Inl e
              | Inr err \<Rightarrow>
                  (case py_get err ''code'' of
                     Inl e \<Rightarrow> Inl e
                   | Inr c \<Rightarrow>
                       if py_eq_int c 283 then Inl ResourceNotFoundError
                       else Inl (HttpCodeError r))))
      else Inl (HttpCodeError r))"

section \<open>Issuing a request\<close>

text \<open>
  One call of \<^verbatim>\<open>session.request\<close>: the session object it is made on (its address in
  the store of sessions) and the keyword arguments the client passes.
\<close>

record http_call =
  call_session :: nat
  call_method :: string
  call_url :: string
  call_headers :: "headers option"
  call_params :: "query option"
  call_json :: "json option"

text \<open>
  A callback as the client sees it: the object (named by its address) and its truth
  value, which \<^verbatim>\<open>if callback:\<close> reads. A function object is truthy; a callable object
  of another class can be falsy.
\<close>

record callable =
  cb_id :: nat
  cb_truthy :: bool

text \<open>
  The arguments \<^verbatim>\<open>call_api\<close> hands to a thread it starts: resource path, method,
  header parameters, query parameters, body and callback.
\<close>

record thread =
  t_resource_path :: string
  t_method :: string
  t_header_params :: "headers option"
  t_params :: "query option"
  t_body :: "json option"
  t_callback :: "callable option"

text \<open>
  What the client acts on outside its own fields: the session objects created so far
  (a session's address is its index, its content the headers it holds), the HTTP calls
  issued so far, the threads started so far, and the callback invocations made so far
  (the callback's address and its argument), each oldest first.
\<close>

record world =
  sessions :: "headers list"
  calls :: "http_call list"
  threads :: "thread list"
  callback_calls :: "(nat \<times> response_result) list"

definition http_methods :: "string list" where
  "http_methods = [''POST'', ''PUT'', ''GET'', ''DELETE'']"

text \<open>
  \<^verbatim>\<open>request\<close>. The transport \<open>send\<close> stands for \<^verbatim>\<open>session.request\<close> and the remote
  service behind it: it answers a call with a response or raises.
\<close>

definition request ::
  "(http_call \<Rightarrow> error + response) \<Rightarrow> string \<Rightarrow> string \<Rightarrow> nat \<Rightarrow> headers option \<Rightarrow>
   query option \<Rightarrow> json option \<Rightarrow> world \<Rightarrow> (error + response_result) \<times> world" where
  "request send method url session header_params params body w =
     (if method \<notin> set http_methods then (Inl InvalidHttpMethodError, w)
      else
        let call = \<lparr>call_session = session, call_method = method, call_url = url,
                    call_headers = header_params, call_params = params, call_json = body\<rparr>;
            w' = w\<lparr>calls := calls w @ [call]\<rparr>
        in case send call of
             Inl e \<Rightarrow> (Inl e, w')
           | Inr response \<Rightarrow>
               (case validate_response response of
                  Inl e \<Rightarrow> (Inl e, w')
                | Inr response' \<Rightarrow>
                    (case json response' of
                       None \<Rightarrow> (Inl JSONDecodeError, w')
                     | Some j \<Rightarrow>
                         (Inr \<lparr>res_status_code = status_code response',
                               res_headers = headers response', res_body = j\<rparr>, w'))))"

section \<open>The client\<close>

text \<open>
  The fields of an \<^verbatim>\<open>ApiClient\<close>: \<open>host\<close> is \<^verbatim>\<open>configuration['host']\<close>, \<open>session\<close>
  the address of the primary session, and \<open>last_response\<close> is \<open>None\<close> until
  \<^verbatim>\<open>__call_api\<close> first sets the attribute.
\<close>

record client =
  access_token :: string
  host :: string
  default_headers :: headers
  session :: nat
  last_response :: "response_result option"

text \<open>\<^verbatim>\<open>__validate_access_token\<close>; the slice \<^verbatim>\<open>access_token[:6]\<close> is \<open>take 6\<close>.\<close>

definition ApiClient__validate_access_token :: "string \<Rightarrow> string" where
  "ApiClient__validate_access_token token =
     (if take 6 token \<noteq> ''Bearer'' then ''Barear '' @ token
      else token)"

text \<open>
  \<^verbatim>\<open>requests.Session()\<close> followed by \<^verbatim>\<open>session.headers.update(hs)\<close>: a new session
  object, recorded with the headers the client loads into it, at the next free address.
\<close>

definition new_session :: "headers \<Rightarrow> world \<Rightarrow> nat \<times> world" where
  "new_session hs w = (length (sessions w), w\<lparr>sessions := sessions w @ [hs]\<rparr>)"

text \<open>\<^verbatim>\<open>__init__\<close>.\<close>

definition ApiClient_init :: "string \<Rightarrow> world \<Rightarrow> client \<times> world" where
  "ApiClient_init token w =
     (let access_token' = ApiClient__validate_access_token token;
          default_headers' =
            [(''Authorization'', access_token'),
             (''User-Agent'', ''Venmo/7.44.0 (iPhone; iOS 13.0; Scale/2.0)'')];
          (s, w') = new_session default_headers' w
      in (\<lparr>access_token = access_token', host = ''https://api.venmo.com/v1'',
           default_headers = default_headers', session = s, last_response = None\<rparr>, w'))"

text \<open>\<^verbatim>\<open>header_params or {}\<close>: an absent or empty dict gives the empty dict.\<close>

definition or_empty :: "headers option \<Rightarrow> headers" where
  "or_empty header_params =
     (case header_params of None \<Rightarrow> [] | Some h \<Rightarrow> if h = [] then [] else h)"

text \<open>The test \<^verbatim>\<open>if body:\<close> on the optional body.\<close>

definition body_truthy :: "json option \<Rightarrow> bool" where
  "body_truthy body = (case body of None \<Rightarrow> False | Some j \<Rightarrow> truthy j)"

text \<open>The test \<^verbatim>\<open>if callback:\<close> on the optional callback.\<close>

definition callback_truthy :: "callable option \<Rightarrow> bool" where
  "callback_truthy callback = (case callback of None \<Rightarrow> False | Some cb \<Rightarrow> cb_truthy cb)"

text \<open>
  \<^verbatim>\<open>__call_api\<close>. Both of its tests on the callback are \<^verbatim>\<open>if callback:\<close>. Calling the
  callback is put on record; what the callback itself does is outside the client. The
  method returns \<^verbatim>\<open>None\<close> after calling the callback and the processed response
  otherwise.
\<close>

definition ApiClient__call_api ::
  "(http_call \<Rightarrow> error + response) \<Rightarrow> client \<Rightarrow> string \<Rightarrow> string \<Rightarrow> headers option \<Rightarrow>
   query option \<Rightarrow> json option \<Rightarrow> callable option \<Rightarrow> world \<Rightarrow>
   (error + response_result option) \<times> client \<times> world" where
  "ApiClient__call_api send self resource_path method header_params params body callback w =
     (let header_params1 = or_empty header_params;
          header_params2 =
            (if body_truthy body
             then AList.update ''Content-Type'' ''application/json'' header_params1
             else header_params1);
          url = host self @ resource_path;
          (session', w1) =
            (if callback_truthy callback then new_session (default_headers self) w
             else (session self, w))
      in case request send method url session' (Some header_params2) params body w1 of
           (Inl e, w2) \<Rightarrow> (Inl e, self, w2)
         | (Inr processed_response, w2) \<Rightarrow>
             (let self' = self\<lparr>last_response := Some processed_response\<rparr>
              in case callback of
                   Some cb \<Rightarrow>
                     if cb_truthy cb
                     then (Inr None, self',
                           w2\<lparr>callback_calls :=
                                callback_calls w2 @ [(cb_id cb, processed_response)]\<rparr>)
                     else (Inr (Some processed_response), self', w2)
                 | None \<Rightarrow> (Inr (Some processed_response), self', w2)))"

text \<open>
  What \<^verbatim>\<open>call_api\<close> returns: the value of \<^verbatim>\<open>__call_api\<close>, or the thread object it
  started (named by its index among the started threads).
\<close>

datatype call_api_result = Returned "response_result option" | ThreadHandle nat

text \<open>
  \<^verbatim>\<open>call_api\<close>. Its test is \<^verbatim>\<open>callback is None\<close>: with any callback it builds a
  thread whose target is \<^verbatim>\<open>__call_api\<close> with the same arguments, starts it and returns
  it; the thread's work is \<open>thread_run\<close>.
\<close>

definition call_api ::
  "(http_call \<Rightarrow> error + response) \<Rightarrow> client \<Rightarrow> string \<Rightarrow> string \<Rightarrow> headers option \<Rightarrow>
   query option \<Rightarrow> json option \<Rightarrow> callable option \<Rightarrow> world \<Rightarrow>
   (error + call_api_result) \<times> client \<times> world" where
  "call_api send self resource_path method header_params params body callback w =
     (case callback of
        None \<Rightarrow>
          (case ApiClient__call_api send self resource_path method header_params params body
                  None w of
             (Inl e, self', w') \<Rightarrow> (Inl e, self', w')
           | (Inr r, self', w') \<Rightarrow> (Inr (Returned r), self', w'))
      | Some cb \<Rightarrow>
          (Inr (ThreadHandle (length (threads w))), self,
           w\<lparr>threads := threads w @
              [\<lparr>t_resource_path = resource_path, t_method = method,
                t_header_params = header_params, t_params = params, t_body = body,
                t_callback = Some cb\<rparr>]\<rparr>))"


section \<open>Keyword-argument filtering\<close>

text \<open>
  A Python object as \<^verbatim>\<open>clean_kwargs\<close> sees it: a dict with string keys (its items in
  iteration order) or anything else.
\<close>

datatype 'a obj = Obj 'a | Dict "(string \<times> 'a obj) list"

text \<open>The message of the \<^verbatim>\<open>TypeError\<close>, the key put between single quotes.\<close>

definition unexpected_keyword :: "string \<Rightarrow> string" where
  "unexpected_keyword key =
     ''Got an unexpected keyword argument '' @ [CHR 0x27] @ key @ [CHR 0x27] @
     '' to method bla bla''"

text \<open>
  The loop of \<^verbatim>\<open>clean_kwargs\<close> over the items of the bucket. It returns the error
  raised, if any, and the \<^verbatim>\<open>params\<close> dict as the loop leaves it.
\<close>

fun merge_kwargs ::
  "string set \<Rightarrow> (string \<times> 'a obj) list \<Rightarrow> (string \<times> 'a obj) list \<Rightarrow>
   error option \<times> (string \<times> 'a obj) list" where
  "merge_kwargs all_params [] params = (None, params)"
| "merge_kwargs all_params ((key, val) # rest) params =
     (if key \<notin> all_params then (Some (TypeError (unexpected_keyword key)), params)
      else merge_kwargs all_params rest (AList.update key val params))"

text \<open>
  \<^verbatim>\<open>clean_kwargs\<close>. The dict \<^verbatim>\<open>params\<close> is changed in place, so the model gives its
  outcome (the error raised or the dict returned) and the state in which the call leaves
  the caller's dict; the dict returned is that same object.
\<close>

definition clean_kwargs ::
  "string set \<Rightarrow> (string \<times> 'a obj) list \<Rightarrow>
   (error + (string \<times> 'a obj) list) \<times> (string \<times> 'a obj) list" where
  "clean_kwargs all_params params =
     (case map_of params ''kwargs'' of
        None \<Rightarrow> (Inl (KeyError ''kwargs''), params)
      | Some (Obj x) \<Rightarrow> (Inl AttributeError, params)
      | Some (Dict kwargs) \<Rightarrow>
          (case merge_kwargs all_params kwargs params of
             (Some e, params') \<Rightarrow> (Inl e, params')
           | (None, params') \<Rightarrow>
               (let params'' = AList.delete ''kwargs'' params'
                in (Inr params'', params''))))"

section \<open>Properties of validation and of request\<close>

lemma validate_response_success:
  "200 \<le> status_code r \<Longrightarrow> status_code r \<le> 204 \<Longrightarrow> validate_response r = Inr r"
  by (simp add: validate_response_def json_attribute_truthy_def)

lemma validate_response_other_status:
  "status_code r < 200 \<or> 204 < status_code r \<Longrightarrow> status_code r \<noteq> 400 \<Longrightarrow>
   validate_response r = Inl (HttpCodeError r)"
  by (auto simp add: validate_response_def)

text \<open>
  C1. When the method is one of the four accepted ones (so that the call is issued) and
  the transport answers with a response whose status code is in 200..204 and whose body
  parses as JSON to \<open>j\<close>, \<^verbatim>\<open>request\<close> raises nothing and returns the dict with that
  status code, those headers, and \<open>j\<close> as its body; the one HTTP call is on record.
\<close>

theorem request_success:
  assumes "method \<in> set http_methods"
    and "send \<lparr>call_session = sess, call_method = method, call_url = url,
               call_headers = header_params, call_params = params, call_json = body\<rparr> = Inr r"
    and "200 \<le> status_code r" and "status_code r \<le> 204"
    and "json r = Some j"
  shows "request send method url sess header_params params body w =
           (Inr \<lparr>res_status_code = status_code r, res_headers = headers r, res_body = j\<rparr>,
            w\<lparr>calls := calls w @
               [\<lparr>call_session = sess, call_method = method, call_url = url,
                 call_headers = header_params, call_params = params, call_json = body\<rparr>]\<rparr>)"
  using assms by (simp add: request_def validate_response_success)

theorem request_success_witness:
  "request
     (\<lambda>c. Inr \<lparr>status_code = 201, headers = [(''Server'', ''x'')],
                json = Some (JObj [(''id'', JInt 7)])\<rparr>)
     ''POST'' ''https://api.venmo.com/v1/payments'' 0 None None (Some (JObj [(''note'', JStr ''hi'')]))
     \<lparr>sessions = [[]], calls = [], threads = [], callback_calls = []\<rparr> =
   (Inr \<lparr>res_status_code = 201, res_headers = [(''Server'', ''x'')],
         res_body = JObj [(''id'', JInt 7)]\<rparr>,
    \<lparr>sessions = [[]],
     calls = [\<lparr>call_session = 0, call_method = ''POST'',
               call_url = ''https://api.venmo.com/v1/payments'', call_headers = None,
               call_params = None, call_json = Some (JObj [(''note'', JStr ''hi'')])\<rparr>],
     threads = [], callback_calls = []\<rparr>)"
  using request_success
    [of "''POST''"
        "\<lambda>c. Inr \<lparr>status_code = 201, headers = [(''Server'', ''x'')],
                    json = Some (JObj [(''id'', JInt 7)])\<rparr>"
        0 "''https://api.venmo.com/v1/payments''" None None "Some (JObj [(''note'', JStr ''hi'')])"
        "\<lparr>status_code = 201, headers = [(''Server'', ''x'')],
          json = Some (JObj [(''id'', JInt 7)])\<rparr>"
        "JObj [(''id'', JInt 7)]"
        "\<lparr>sessions = [[]], calls = [], threads = [], callback_calls = []\<rparr>"]
  by (simp add: http_methods_def)

text \<open>
  C2. A response with status code 400 whose JSON body is a dict holding, under
  \<open>error\<close>, a dict whose \<open>code\<close> entry equals 283 makes \<^verbatim>\<open>validate_response\<close> raise
  \<open>ResourceNotFoundError\<close>.
\<close>

theorem validate_response_not_found:
  assumes "status_code r = 400"
    and "json r = Some (JObj body)"
    and "map_of body ''error'' = Some (JObj err)"
    and "map_of err ''code'' = Some c"
    and "py_eq_int c 283"
  shows "validate_response r = Inl ResourceNotFoundError"
  using assms by (simp add: validate_response_def)

theorem validate_response_not_found_witness:
  "validate_response
     \<lparr>status_code = 400, headers = [],
      json = Some (JObj [(''error'', JObj [(''message'', JStr ''Resource not found.''),
                                            (''code'', JInt 283)])])\<rparr> =
   Inl ResourceNotFoundError"
  using validate_response_not_found
    [of "\<lparr>status_code = 400, headers = [],
          json = Some (JObj [(''error'', JObj [(''message'', JStr ''Resource not found.''),
                                                (''code'', JInt 283)])])\<rparr>"
        "[(''error'', JObj [(''message'', JStr ''Resource not found.''), (''code'', JInt 283)])]"
        "[(''message'', JStr ''Resource not found.''), (''code'', JInt 283)]"
        "JInt 283"]
  by simp

text \<open>
  C5. A method string outside POST, PUT, GET, DELETE makes \<^verbatim>\<open>request\<close> raise
  \<open>InvalidHttpMethodError\<close> and leaves the world as it was: no HTTP call is issued on
  any session.
\<close>

theorem request_invalid_method:
  assumes "method \<notin> {''GET'', ''POST'', ''PUT'', ''DELETE''}"
  shows "request send method url sess header_params params body w =
           (Inl InvalidHttpMethodError, w)"
  using assms by (auto simp add: request_def http_methods_def)

theorem request_invalid_method_witness:
  "request (\<lambda>c. Inr \<lparr>status_code = 200, headers = [], json = Some JNull\<rparr>)
     ''PATCH'' ''https://api.venmo.com/v1/me'' 0 None None None
     \<lparr>sessions = [[]], calls = [], threads = [], callback_calls = []\<rparr> =
   (Inl InvalidHttpMethodError,
    \<lparr>sessions = [[]], calls = [], threads = [], callback_calls = []\<rparr>)"
  using request_invalid_method
    [of "''PATCH''" "\<lambda>c. Inr \<lparr>status_code = 200, headers = [], json = Some JNull\<rparr>"
        "''https://api.venmo.com/v1/me''" 0 None None None
        "\<lparr>sessions = [[]], calls = [], threads = [], callback_calls = []\<rparr>"]
  by simp

text \<open>
  C3. The responses that are neither a success nor the 400-with-283 case are to raise
  \<open>HttpCodeError\<close>. The code does so for every status outside 200..204 other than 400
  (\<open>validate_response_other_status\<close>) and for a 400 whose body holds an \<open>error\<close> dict
  with another code, but not everywhere: a status of 200 with a body that does not parse
  passes validation and \<^verbatim>\<open>request\<close> then raises the JSON decoding error, and a 400
  whose body has no \<open>error\<close> entry raises \<open>AttributeError\<close>.
\<close>

theorem request_unparseable_success_body:
  "validate_response \<lparr>status_code = 200, headers = [], json = None\<rparr> =
     Inr \<lparr>status_code = 200, headers = [], json = None\<rparr> \<and>
   fst (request (\<lambda>c. Inr \<lparr>status_code = 200, headers = [], json = None\<rparr>)
          ''GET'' ''https://api.venmo.com/v1/me'' 0 None None None
          \<lparr>sessions = [[]], calls = [], threads = [], callback_calls = []\<rparr>) =
     Inl JSONDecodeError \<and>
   validate_response \<lparr>status_code = 400, headers = [], json = Some (JObj [])\<rparr> =
     Inl AttributeError"
  by (simp add: request_def validate_response_def json_attribute_truthy_def http_methods_def)

lemma validate_response_other_code:
  assumes "status_code r = 400"
    and "json r = Some (JObj body)"
    and "map_of body ''error'' = Some (JObj err)"
    and "map_of err ''code'' = Some c"
    and "\<not> py_eq_int c 283"
  shows "validate_response r = Inl (HttpCodeError r)"
  using assms by (simp add: validate_response_def)

text \<open>
  C4. A token that starts with \<open>Bearer\<close> is kept as it is
  (\<open>validate_access_token_kept\<close>). A token that does not is to get the marker
  \<open>Bearer\<close> and a space in front; the code puts \<open>Barear\<close> there instead, so the token
  \<open>abc\<close> is stored as \<open>Barear abc\<close>.
\<close>

theorem validate_access_token_misspelled:
  "ApiClient__validate_access_token ''abc'' = ''Barear abc'' \<and>
   access_token (fst (ApiClient_init ''abc''
      \<lparr>sessions = [], calls = [], threads = [], callback_calls = []\<rparr>)) = ''Barear abc''"
  by (simp add: ApiClient__validate_access_token_def ApiClient_init_def new_session_def Let_def)

lemma validate_access_token_kept:
  "take 6 token = ''Bearer'' \<Longrightarrow> ApiClient__validate_access_token token = token"
  by (simp add: ApiClient__validate_access_token_def)

lemma validate_access_token_prefixed:
  "take 6 token \<noteq> ''Bearer'' \<Longrightarrow>
   ApiClient__validate_access_token token = ''Barear '' @ token"
  by (simp add: ApiClient__validate_access_token_def)

section \<open>Properties of the client and of keyword filtering\<close>

lemma request_calls:
  "method \<in> set http_methods \<Longrightarrow>
   snd (request send method url sess header_params params body w) =
     w\<lparr>calls := calls w @
        [\<lparr>call_session = sess, call_method = method, call_url = url,
          call_headers = header_params, call_params = params, call_json = body\<rparr>]\<rparr>"
  by (simp add: request_def Let_def split: sum.splits option.splits)

lemma request_ok_method:
  "request send method url sess header_params params body w = (Inr r, w') \<Longrightarrow>
   method \<in> set http_methods"
  by (auto simp add: request_def split: if_splits)

lemma merge_kwargs_all_valid:
  "fst ` set kw \<subseteq> all_params \<Longrightarrow> fst (merge_kwargs all_params kw params) = None"
  by (induction kw arbitrary: params) auto

lemma merge_kwargs_lookup:
  "distinct (map fst kw) \<Longrightarrow> fst ` set kw \<subseteq> all_params \<Longrightarrow>
   map_of (snd (merge_kwargs all_params kw params)) k =
     (case map_of kw k of Some v \<Rightarrow> Some v | None \<Rightarrow> map_of params k)"
proof (induction kw arbitrary: params)
  case Nil
  then show ?case by simp
next
  case (Cons e kw)
  obtain k0 v0 where e: "e = (k0, v0)" by (cases e)
  from Cons.prems e have fresh: "map_of kw k0 = None"
    by (simp add: map_of_eq_None_iff)
  from Cons.prems e have "map_of (snd (merge_kwargs all_params kw (AList.update k0 v0 params))) k =
     (case map_of kw k of Some v \<Rightarrow> Some v | None \<Rightarrow> map_of (AList.update k0 v0 params) k)"
    by (intro Cons.IH) auto
  with Cons.prems e fresh show ?case
    by (auto simp add: update_conv' split: option.splits)
qed

lemma merge_kwargs_first_invalid:
  "fst ` set pre \<subseteq> all_params \<Longrightarrow> key \<notin> all_params \<Longrightarrow>
   merge_kwargs all_params (pre @ (key, val) # rest) params =
     (Some (TypeError (unexpected_keyword key)), snd (merge_kwargs all_params pre params))"
  by (induction pre arbitrary: params) auto

lemma first_invalid_split:
  assumes "\<not> fst ` set kw \<subseteq> all_params"
  shows "\<exists>pre key val rest. kw = pre @ (key, val) # rest \<and> fst ` set pre \<subseteq> all_params \<and>
           key \<notin> all_params"
proof -
  from assms have "\<exists>e \<in> set kw. fst e \<notin> all_params" by auto
  then obtain pre e rest where "kw = pre @ e # rest" "fst e \<notin> all_params"
    "\<forall>x \<in> set pre. \<not> fst x \<notin> all_params"
    by (auto dest!: split_list_first_prop)
  then show ?thesis
    by (cases e) auto
qed

text \<open>
  With \<open>kwargs\<close> in the allow-list and a bucket holding the one entry \<open>kwargs: 1\<close>,
  every key of the bucket is allowed, yet the dict returned is empty: the entry was
  merged and then deleted.
\<close>

theorem clean_kwargs_merged_counterexample:
  "clean_kwargs {''kwargs''} [(''kwargs'', Dict [(''kwargs'', Obj (1::int))])] = (Inr [], [])"
  by (simp add: clean_kwargs_def Let_def)

text \<open>
  C6, as the code has it. For a \<^verbatim>\<open>params\<close> dict whose \<open>kwargs\<close> entry is a dict
  (its items listed under distinct keys, as the items of a dict are): when every key of
  the bucket is in the allow-list, \<^verbatim>\<open>clean_kwargs\<close> returns the dict with every bucket
  entry whose key is not \<open>kwargs\<close> itself merged in, the entries under other keys as
  they were, and no \<open>kwargs\<close> key. When some key is outside the allow-list, the bucket
  splits at the first such key in iteration order (the entries before it all allowed),
  and for that split \<^verbatim>\<open>clean_kwargs\<close> raises the \<open>TypeError\<close> whose message names that
  first key, the dict being left as the loop over the entries before it made it. The
  claim as written promises every bucket entry merged in, which fails for a bucket entry
  under the key \<open>kwargs\<close>: the final \<^verbatim>\<open>del\<close> removes it.
\<close>

theorem clean_kwargs_merged:
  assumes "map_of params ''kwargs'' = Some (Dict kwargs)"
    and "distinct (map fst kwargs)"
  shows "(fst ` set kwargs \<subseteq> all_params \<longrightarrow>
            (\<exists>ret. clean_kwargs all_params params = (Inr ret, ret) \<and>
               map_of ret ''kwargs'' = None \<and>
               (\<forall>(k, v) \<in> set kwargs. k \<noteq> ''kwargs'' \<longrightarrow> map_of ret k = Some v) \<and>
               (\<forall>k. k \<notin> fst ` set kwargs \<and> k \<noteq> ''kwargs'' \<longrightarrow>
                  map_of ret k = map_of params k))) \<and>
         (\<not> fst ` set kwargs \<subseteq> all_params \<longrightarrow>
            (\<exists>pre key val rest. kwargs = pre @ (key, val) # rest \<and>
               fst ` set pre \<subseteq> all_params \<and> key \<notin> all_params)) \<and>
         (\<forall>pre key val rest.
            kwargs = pre @ (key, val) # rest \<and> fst ` set pre \<subseteq> all_params \<and>
            key \<notin> all_params \<longrightarrow>
            clean_kwargs all_params params =
              (Inl (TypeError (unexpected_keyword key)),
               snd (merge_kwargs all_params pre params)))"
proof (intro conjI impI allI)
  assume valid: "fst ` set kwargs \<subseteq> all_params"
  obtain e p' where m: "merge_kwargs all_params kwargs params = (e, p')"
    by (cases "merge_kwargs all_params kwargs params")
  with merge_kwargs_all_valid [OF valid, of params] have e: "e = None" by simp
  have look: "map_of p' k = (case map_of kwargs k of Some v \<Rightarrow> Some v | None \<Rightarrow> map_of params k)"
    for k
    using merge_kwargs_lookup [OF assms(2) valid, of params k] m by simp
  let ?ret = "AList.delete ''kwargs'' p'"
  have 1: "clean_kwargs all_params params = (Inr ?ret, ?ret)"
    using assms(1) m e by (simp add: clean_kwargs_def Let_def)
  have 2: "map_of ?ret ''kwargs'' = None"
    by (simp add: delete_conv')
  have 3: "\<forall>(k, v) \<in> set kwargs. k \<noteq> ''kwargs'' \<longrightarrow> map_of ?ret k = Some v"
    using assms(2) by (auto simp add: delete_conv' look)
  have 4: "\<forall>k. k \<notin> fst ` set kwargs \<and> k \<noteq> ''kwargs'' \<longrightarrow> map_of ?ret k = map_of params k"
    by (auto simp add: delete_conv' look split: option.splits dest: map_of_SomeD
        intro: rev_image_eqI)
  from 1 2 3 4
  show "\<exists>ret. clean_kwargs all_params params = (Inr ret, ret) \<and>
               map_of ret ''kwargs'' = None \<and>
               (\<forall>(k, v) \<in> set kwargs. k \<noteq> ''kwargs'' \<longrightarrow> map_of ret k = Some v) \<and>
               (\<forall>k. k \<notin> fst ` set kwargs \<and> k \<noteq> ''kwargs'' \<longrightarrow>
                  map_of ret k = map_of params k)"
    by blast
next
  assume "\<not> fst ` set kwargs \<subseteq> all_params"
  then show "\<exists>pre key val rest. kwargs = pre @ (key, val) # rest \<and>
               fst ` set pre \<subseteq> all_params \<and> key \<notin> all_params"
    by (rule first_invalid_split)
next
  fix pre key val rest
  assume h: "kwargs = pre @ (key, val) # rest \<and> fst ` set pre \<subseteq> all_params \<and>
            key \<notin> all_params"
  then have "merge_kwargs all_params kwargs params =
      (Some (TypeError (unexpected_keyword key)), snd (merge_kwargs all_params pre params))"
    using merge_kwargs_first_invalid [of pre all_params key val rest params] by simp
  with assms(1)
  show "clean_kwargs all_params params =
              (Inl (TypeError (unexpected_keyword key)),
               snd (merge_kwargs all_params pre params))"
    by (simp add: clean_kwargs_def)
qed

theorem clean_kwargs_merged_witness:
  "clean_kwargs {''a'', ''b''}
     [(''kwargs'', Dict [(''a'', Obj (1::int)), (''c'', Obj 2), (''d'', Obj 3)])] =
     (Inl (TypeError (unexpected_keyword ''c'')),
      [(''kwargs'', Dict [(''a'', Obj 1), (''c'', Obj 2), (''d'', Obj 3)]), (''a'', Obj 1)]) \<and>
   (\<exists>ret. clean_kwargs {''a'', ''b''} [(''kwargs'', Dict [(''a'', Obj (1::int))])] = (Inr ret, ret) \<and>
         map_of ret ''kwargs'' = None \<and> map_of ret ''a'' = Some (Obj 1))"
proof (intro conjI)
  let ?kw = "[(''a'', Obj (1::int)), (''c'', Obj 2), (''d'', Obj 3)]"
  let ?p = "[(''kwargs'', Dict ?kw)]"
  have bucket: "map_of ?p ''kwargs'' = Some (Dict ?kw)" by simp
  have dist: "distinct (map fst ?kw)" by simp
  have split: "?kw = [(''a'', Obj 1)] @ (''c'', Obj 2) # [(''d'', Obj 3)] \<and>
        fst ` set [(''a'', Obj (1::int))] \<subseteq> {''a'', ''b''} \<and> ''c'' \<notin> {''a'', ''b''}"
    by simp
  note fails = clean_kwargs_merged [OF bucket dist, of "{''a'', ''b''}",
      THEN conjunct2, THEN conjunct2, rule_format, OF split]
  have state: "snd (merge_kwargs {''a'', ''b''} [(''a'', Obj (1::int))] ?p) =
      [(''kwargs'', Dict ?kw), (''a'', Obj 1)]"
    by simp
  from fails state
  show "clean_kwargs {''a'', ''b''} ?p =
     (Inl (TypeError (unexpected_keyword ''c'')), [(''kwargs'', Dict ?kw), (''a'', Obj 1)])"
    by (simp only:)
next
  let ?kw = "[(''a'', Obj (1::int))]"
  let ?p = "[(''kwargs'', Dict ?kw)]"
  have bucket: "map_of ?p ''kwargs'' = Some (Dict ?kw)" by simp
  have dist: "distinct (map fst ?kw)" by simp
  have valid: "fst ` set ?kw \<subseteq> {''a'', ''b''}" by simp
  from clean_kwargs_merged [OF bucket dist, of "{''a'', ''b''}", THEN conjunct1, rule_format,
      OF valid]
  obtain ret where "clean_kwargs {''a'', ''b''} ?p = (Inr ret, ret)"
    "map_of ret ''kwargs'' = None"
    "\<forall>(k, v) \<in> set ?kw. k \<noteq> ''kwargs'' \<longrightarrow> map_of ret k = Some v"
    by blast
  then show "\<exists>ret. clean_kwargs {''a'', ''b''} ?p = (Inr ret, ret) \<and>
         map_of ret ''kwargs'' = None \<and> map_of ret ''a'' = Some (Obj 1)"
    by auto
qed

lemma clean_kwargs_spec_examples:
  "clean_kwargs {''a'', ''b''} [(''kwargs'', Dict [(''a'', Obj (1::int))])] =
     (Inr [(''a'', Obj 1)], [(''a'', Obj 1)])"
  "clean_kwargs {''a'', ''b''} [(''kwargs'', Dict [(''a'', Obj (1::int)), (''c'', Obj 2)])] =
     (Inl (TypeError (unexpected_keyword ''c'')),
      [(''kwargs'', Dict [(''a'', Obj 1), (''c'', Obj 2)]), (''a'', Obj 1)])"
  "unexpected_keyword ''c'' = ''Got an unexpected keyword argument '' @ [CHR 0x27] @ ''c'' @ [CHR 0x27] @ '' to method bla bla''"
  by (simp_all add: clean_kwargs_def unexpected_keyword_def Let_def)

text \<open>
  C10. \<^verbatim>\<open>clean_kwargs\<close> works on the caller's dict: the dict it returns is the state it
  leaves that dict in. When it raises at the first key outside the allow-list, the
  entries met before that key (distinct keys, none of them \<open>kwargs\<close>) have been merged and the \<open>kwargs\<close> bucket is still
  there, so the dict differs from what it was as soon as one of those entries was new;
  and there is an input on which it raises and leaves the dict changed.
\<close>

theorem clean_kwargs_in_place:
  "(\<forall>ret params'. clean_kwargs all_params params = (Inr ret, params') \<longrightarrow> ret = params') \<and>
   (map_of params ''kwargs'' = Some (Dict (pre @ (key, val) # rest)) \<and>
    fst ` set pre \<subseteq> all_params \<and> key \<notin> all_params \<and>
    distinct (map fst pre) \<and> ''kwargs'' \<notin> fst ` set pre \<longrightarrow>
      (\<exists>params'. clean_kwargs all_params params =
                    (Inl (TypeError (unexpected_keyword key)), params') \<and>
         (\<forall>(k, v) \<in> set pre. map_of params' k = Some v) \<and>
         map_of params' ''kwargs'' = Some (Dict (pre @ (key, val) # rest)) \<and>
         ((\<exists>(k, v) \<in> set pre. map_of params k \<noteq> Some v) \<longrightarrow> params' \<noteq> params))) \<and>
   (\<exists>A (p :: (string \<times> int obj) list) e p'. clean_kwargs A p = (Inl e, p') \<and> p' \<noteq> p)"
proof (intro conjI impI allI)
  fix ret params'
  assume "clean_kwargs all_params params = (Inr ret, params')"
  then show "ret = params'"
    by (auto simp add: clean_kwargs_def Let_def split: option.splits obj.splits prod.splits)
next
  assume h: "map_of params ''kwargs'' = Some (Dict (pre @ (key, val) # rest)) \<and>
    fst ` set pre \<subseteq> all_params \<and> key \<notin> all_params \<and>
    distinct (map fst pre) \<and> ''kwargs'' \<notin> fst ` set pre"
  let ?p = "snd (merge_kwargs all_params pre params)"
  have look: "map_of ?p k = (case map_of pre k of Some v \<Rightarrow> Some v | None \<Rightarrow> map_of params k)"
    for k
    using merge_kwargs_lookup [of pre all_params params k] h by simp
  have 1: "clean_kwargs all_params params = (Inl (TypeError (unexpected_keyword key)), ?p)"
    using h merge_kwargs_first_invalid [of pre all_params key val rest params]
    by (simp add: clean_kwargs_def)
  have 2: "\<forall>(k, v) \<in> set pre. map_of ?p k = Some v"
    using h by (auto simp add: look)
  have "map_of pre ''kwargs'' = None"
    using h by (simp add: map_of_eq_None_iff)
  then have 3: "map_of ?p ''kwargs'' = Some (Dict (pre @ (key, val) # rest))"
    using h by (simp add: look)
  have 4: "(\<exists>(k, v) \<in> set pre. map_of params k \<noteq> Some v) \<longrightarrow> ?p \<noteq> params"
    using 2 by auto
  from 1 2 3 4 show "\<exists>params'. clean_kwargs all_params params =
                    (Inl (TypeError (unexpected_keyword key)), params') \<and>
         (\<forall>(k, v) \<in> set pre. map_of params' k = Some v) \<and>
         map_of params' ''kwargs'' = Some (Dict (pre @ (key, val) # rest)) \<and>
         ((\<exists>(k, v) \<in> set pre. map_of params k \<noteq> Some v) \<longrightarrow> params' \<noteq> params)"
    by blast
next
  have "clean_kwargs {''a'', ''b''} [(''kwargs'', Dict [(''a'', Obj (1::int)), (''c'', Obj 2)])] =
     (Inl (TypeError (unexpected_keyword ''c'')),
      [(''kwargs'', Dict [(''a'', Obj 1), (''c'', Obj 2)]), (''a'', Obj 1)])"
    by (simp add: clean_kwargs_def)
  moreover have "[(''kwargs'', Dict [(''a'', Obj (1::int)), (''c'', Obj 2)]), (''a'', Obj 1)] \<noteq>
      [(''kwargs'', Dict [(''a'', Obj 1), (''c'', Obj 2)])]"
    by simp
  ultimately show "\<exists>A (p :: (string \<times> int obj) list) e p'. clean_kwargs A p = (Inl e, p') \<and> p' \<noteq> p"
    by blast
qed

theorem clean_kwargs_in_place_witness:
  "\<exists>params'. clean_kwargs {''a'', ''b''}
                [(''kwargs'', Dict [(''a'', Obj (1::int)), (''c'', Obj 2)])] =
                (Inl (TypeError (unexpected_keyword ''c'')), params') \<and>
      map_of params' ''a'' = Some (Obj 1) \<and>
      map_of params' ''kwargs'' = Some (Dict [(''a'', Obj 1), (''c'', Obj 2)]) \<and>
      params' \<noteq> [(''kwargs'', Dict [(''a'', Obj 1), (''c'', Obj 2)])]"
  using clean_kwargs_in_place
    [of "{''a'', ''b''}" "[(''kwargs'', Dict [(''a'', Obj (1::int)), (''c'', Obj 2)])]"
        "[(''a'', Obj 1)]" "''c''" "Obj 2" "[]"]
  by auto

text \<open>
  C7. A call of \<^verbatim>\<open>call_api\<close> without a callback that completes without error returns
  the Response Result itself, that is the value \<^verbatim>\<open>request\<close> gave for the call made on
  the primary session, has stored that same result in \<open>last_response\<close>, has issued its
  one HTTP call on the client's primary session, and has started no thread and created
  no session.
\<close>

theorem call_api_synchronous:
  assumes "call_api send self resource_path method header_params params body None w =
             (Inr ret, self', w')"
  shows "\<exists>r. fst (request send method (host self @ resource_path) (session self)
                     (Some (if body_truthy body
                            then AList.update ''Content-Type'' ''application/json''
                                   (or_empty header_params)
                            else or_empty header_params))
                     params body w) = Inr r \<and>
           ret = Returned (Some r) \<and> last_response self' = Some r \<and>
           self' = self\<lparr>last_response := Some r\<rparr> \<and>
           threads w' = threads w \<and> sessions w' = sessions w \<and>
           callback_calls w' = callback_calls w \<and>
           calls w' = calls w @
             [\<lparr>call_session = session self, call_method = method,
               call_url = host self @ resource_path,
               call_headers =
                 Some (if body_truthy body
                       then AList.update ''Content-Type'' ''application/json''
                              (or_empty header_params)
                       else or_empty header_params),
               call_params = params, call_json = body\<rparr>]"
proof -
  let ?hp = "if body_truthy body
             then AList.update ''Content-Type'' ''application/json'' (or_empty header_params)
             else or_empty header_params"
  let ?req = "request send method (host self @ resource_path) (session self) (Some ?hp)
                params body w"
  obtain res w2 where req: "?req = (res, w2)"
    by (cases ?req)
  from assms req obtain r where res: "res = Inr r"
    by (cases res) (auto simp add: call_api_def ApiClient__call_api_def callback_truthy_def Let_def)
  from req res have m: "method \<in> set http_methods"
    by (auto dest: request_ok_method)
  from request_calls [OF m, of send "host self @ resource_path" "session self" "Some ?hp"
      params body w] req
  have w2: "w2 = w\<lparr>calls := calls w @
        [\<lparr>call_session = session self, call_method = method,
          call_url = host self @ resource_path,
          call_headers = Some ?hp, call_params = params, call_json = body\<rparr>]\<rparr>"
    by simp
  from assms req res have "ret = Returned (Some r)" and "self' = self\<lparr>last_response := Some r\<rparr>"
    and "w' = w2"
    by (auto simp add: call_api_def ApiClient__call_api_def callback_truthy_def Let_def)
  moreover from req res have "fst ?req = Inr r" by simp
  ultimately show ?thesis using w2 by simp
qed

theorem call_api_synchronous_witness:
  "call_api
     (\<lambda>c. Inr \<lparr>status_code = 200, headers = [], json = Some (JObj [(''id'', JInt 7)])\<rparr>)
     \<lparr>access_token = ''Bearer t'', host = ''https://api.venmo.com/v1'',
      default_headers = [(''Authorization'', ''Bearer t'')], session = 0,
      last_response = None\<rparr>
     ''/me'' ''GET'' None (Some [(''limit'', ''5'')]) None None
     \<lparr>sessions = [[(''Authorization'', ''Bearer t'')]], calls = [], threads = [],
      callback_calls = []\<rparr> =
   (Inr (Returned (Some \<lparr>res_status_code = 200, res_headers = [],
                          res_body = JObj [(''id'', JInt 7)]\<rparr>)),
    \<lparr>access_token = ''Bearer t'', host = ''https://api.venmo.com/v1'',
      default_headers = [(''Authorization'', ''Bearer t'')], session = 0,
      last_response = Some \<lparr>res_status_code = 200, res_headers = [],
                             res_body = JObj [(''id'', JInt 7)]\<rparr>\<rparr>,
    \<lparr>sessions = [[(''Authorization'', ''Bearer t'')]],
     calls = [\<lparr>call_session = 0, call_method = ''GET'',
               call_url = ''https://api.venmo.com/v1/me'', call_headers = Some [],
               call_params = Some [(''limit'', ''5'')], call_json = None\<rparr>],
     threads = [], callback_calls = []\<rparr>)"
proof -
  let ?send = "\<lambda>c::http_call. (Inr \<lparr>status_code = 200, headers = [],
                  json = Some (JObj [(''id'', JInt 7)])\<rparr> :: error + response)"
  let ?self = "\<lparr>access_token = ''Bearer t'', host = ''https://api.venmo.com/v1'',
      default_headers = [(''Authorization'', ''Bearer t'')], session = 0,
      last_response = None\<rparr>"
  let ?w = "\<lparr>sessions = [[(''Authorization'', ''Bearer t'')]], calls = [], threads = [],
      callback_calls = []\<rparr>"
  let ?out = "call_api ?send ?self ''/me'' ''GET'' None (Some [(''limit'', ''5'')]) None None ?w"
  have run: "?out =
   (Inr (Returned (Some \<lparr>res_status_code = 200, res_headers = [],
                          res_body = JObj [(''id'', JInt 7)]\<rparr>)),
    \<lparr>access_token = ''Bearer t'', host = ''https://api.venmo.com/v1'',
      default_headers = [(''Authorization'', ''Bearer t'')], session = 0,
      last_response = Some \<lparr>res_status_code = 200, res_headers = [],
                             res_body = JObj [(''id'', JInt 7)]\<rparr>\<rparr>,
    \<lparr>sessions = [[(''Authorization'', ''Bearer t'')]],
     calls = [\<lparr>call_session = 0, call_method = ''GET'',
               call_url = ''https://api.venmo.com/v1/me'', call_headers = Some [],
               call_params = Some [(''limit'', ''5'')], call_json = None\<rparr>],
     threads = [], callback_calls = []\<rparr>)"
    by (simp add: call_api_def ApiClient__call_api_def request_def validate_response_def
        json_attribute_truthy_def http_methods_def or_empty_def body_truthy_def
        callback_truthy_def Let_def)
  from call_api_synchronous [OF run] run show ?thesis
    by simp
qed


lemma call_api_impl_calls:
  assumes "method \<in> set http_methods"
  shows "calls (snd (snd (ApiClient__call_api send self resource_path method header_params
                            params body callback w))) =
         calls w @
           [\<lparr>call_session =
               (if callback_truthy callback then length (sessions w) else session self),
             call_method = method, call_url = host self @ resource_path,
             call_headers =
               Some (if body_truthy body
                     then AList.update ''Content-Type'' ''application/json''
                            (or_empty header_params)
                     else or_empty header_params),
             call_params = params, call_json = body\<rparr>]"
proof -
  let ?hp = "if body_truthy body
             then AList.update ''Content-Type'' ''application/json'' (or_empty header_params)
             else or_empty header_params"
  let ?url = "host self @ resource_path"
  show ?thesis
  proof (cases "callback_truthy callback")
    case False
    let ?req = "request send method ?url (session self) (Some ?hp) params body w"
    obtain res w2 where req: "?req = (res, w2)" by (cases ?req)
    with request_calls [OF assms, of send ?url "session self" "Some ?hp" params body w]
    have "calls w2 = calls w @ [\<lparr>call_session = session self, call_method = method,
        call_url = ?url, call_headers = Some ?hp, call_params = params, call_json = body\<rparr>]"
      by simp
    with False req show ?thesis
      by (cases res)
        (simp_all add: ApiClient__call_api_def callback_truthy_def Let_def split: option.splits)
  next
    case True
    let ?w1 = "w\<lparr>sessions := sessions w @ [default_headers self]\<rparr>"
    let ?req = "request send method ?url (length (sessions w)) (Some ?hp) params body ?w1"
    obtain res w2 where req: "?req = (res, w2)" by (cases ?req)
    with request_calls [OF assms, of send ?url "length (sessions w)" "Some ?hp" params body ?w1]
    have "calls w2 = calls w @ [\<lparr>call_session = length (sessions w), call_method = method,
        call_url = ?url, call_headers = Some ?hp, call_params = params, call_json = body\<rparr>]"
      by simp
    with True req show ?thesis
      by (cases res)
        (simp_all add: ApiClient__call_api_def callback_truthy_def new_session_def Let_def
          split: option.splits)
  qed
qed

text \<open>
  \<^verbatim>\<open>request\<close> called with a non-empty body and no header parameters issues its HTTP
  call with \<^verbatim>\<open>headers=None\<close>: it hands \<^verbatim>\<open>header_params\<close> on as given and adds no
  Content-Type header.
\<close>

theorem request_content_type_counterexample:
  "body_truthy (Some (JObj [(''note'', JStr ''hi'')])) \<and>
   calls (snd (request
      (\<lambda>c. Inr \<lparr>status_code = 200, headers = [], json = Some JNull\<rparr>)
      ''POST'' ''https://api.venmo.com/v1/payments'' 0 None None
      (Some (JObj [(''note'', JStr ''hi'')]))
      \<lparr>sessions = [[]], calls = [], threads = [], callback_calls = []\<rparr>)) =
     [\<lparr>call_session = 0, call_method = ''POST'',
       call_url = ''https://api.venmo.com/v1/payments'', call_headers = None,
       call_params = None, call_json = Some (JObj [(''note'', JStr ''hi'')])\<rparr>]"
  by (simp add: request_def validate_response_def json_attribute_truthy_def http_methods_def
      body_truthy_def Let_def)

text \<open>
  C8, as the code has it. The header is added by \<^verbatim>\<open>__call_api\<close>, with or without a
  callback, before it calls \<^verbatim>\<open>request\<close>: when the body is truthy, the HTTP call it
  issues carries Content-Type: application/json in its headers argument, the other
  header parameters being as given; when the body is falsy or absent, the headers
  argument is the header parameters as given (the empty dict when there were none).
  \<^verbatim>\<open>request\<close> itself passes its header parameters on unchanged.
\<close>

theorem call_api_content_type:
  assumes "method \<in> set http_methods"
  shows "(\<exists>c. calls (snd (snd (ApiClient__call_api send self resource_path method header_params
                                  params body callback w))) = calls w @ [c] \<and>
              call_json c = body \<and>
              (if body_truthy body
               then \<exists>h. call_headers c = Some h \<and>
                      map_of h ''Content-Type'' = Some ''application/json'' \<and>
                      (\<forall>k. k \<noteq> ''Content-Type'' \<longrightarrow>
                         map_of h k = map_of (or_empty header_params) k)
               else call_headers c = Some (or_empty header_params))) \<and>
         (\<exists>c. calls (snd (request send method url sess header_params params body w)) =
                 calls w @ [c] \<and>
               call_json c = body \<and> call_headers c = header_params)"
proof (intro conjI)
  show "\<exists>c. calls (snd (snd (ApiClient__call_api send self resource_path method header_params
                                  params body callback w))) = calls w @ [c] \<and>
              call_json c = body \<and>
              (if body_truthy body
               then \<exists>h. call_headers c = Some h \<and>
                      map_of h ''Content-Type'' = Some ''application/json'' \<and>
                      (\<forall>k. k \<noteq> ''Content-Type'' \<longrightarrow>
                         map_of h k = map_of (or_empty header_params) k)
               else call_headers c = Some (or_empty header_params))"
    using call_api_impl_calls [OF assms, of send self resource_path header_params params body
        callback w]
    by (simp add: update_conv')
next
  show "\<exists>c. calls (snd (request send method url sess header_params params body w)) =
                 calls w @ [c] \<and>
               call_json c = body \<and> call_headers c = header_params"
    using request_calls [OF assms, of send url sess header_params params body w]
    by simp
qed

theorem call_api_content_type_witness:
  "\<exists>c h. calls (snd (snd (ApiClient__call_api
      (\<lambda>c. Inr \<lparr>status_code = 200, headers = [], json = Some JNull\<rparr>)
      \<lparr>access_token = ''Bearer t'', host = ''https://api.venmo.com/v1'',
        default_headers = [(''Authorization'', ''Bearer t'')], session = 0,
        last_response = None\<rparr>
      ''/payments'' ''POST'' None None (Some (JObj [(''note'', JStr ''hi'')])) None
      \<lparr>sessions = [[(''Authorization'', ''Bearer t'')]], calls = [], threads = [],
        callback_calls = []\<rparr>))) = [c] \<and>
     call_headers c = Some h \<and> map_of h ''Content-Type'' = Some ''application/json''"
proof -
  have m: "''POST'' \<in> set http_methods"
    by (simp add: http_methods_def)
  have b: "body_truthy (Some (JObj [(''note'', JStr ''hi'')]))"
    by (simp add: body_truthy_def)
  from call_api_content_type [OF m,
      of "\<lambda>c. Inr \<lparr>status_code = 200, headers = [], json = Some JNull\<rparr>"
        "\<lparr>access_token = ''Bearer t'', host = ''https://api.venmo.com/v1'',
          default_headers = [(''Authorization'', ''Bearer t'')], session = 0,
          last_response = None\<rparr>"
        "''/payments''" None None "Some (JObj [(''note'', JStr ''hi'')])" None
        "\<lparr>sessions = [[(''Authorization'', ''Bearer t'')]], calls = [], threads = [],
          callback_calls = []\<rparr>"]
  obtain c where c: "calls (snd (snd (ApiClient__call_api
      (\<lambda>c. Inr \<lparr>status_code = 200, headers = [], json = Some JNull\<rparr>)
      \<lparr>access_token = ''Bearer t'', host = ''https://api.venmo.com/v1'',
        default_headers = [(''Authorization'', ''Bearer t'')], session = 0,
        last_response = None\<rparr>
      ''/payments'' ''POST'' None None (Some (JObj [(''note'', JStr ''hi'')])) None
      \<lparr>sessions = [[(''Authorization'', ''Bearer t'')]], calls = [], threads = [],
        callback_calls = []\<rparr>))) = [c]"
    and h: "if body_truthy (Some (JObj [(''note'', JStr ''hi'')]))
            then \<exists>h. call_headers c = Some h \<and>
                   map_of h ''Content-Type'' = Some ''application/json'' \<and>
                   (\<forall>k. k \<noteq> ''Content-Type'' \<longrightarrow> map_of h k = map_of (or_empty None) k)
            else call_headers c = Some (or_empty None)"
    by auto
  from h b obtain h' where "call_headers c = Some h'"
    "map_of h' ''Content-Type'' = Some ''application/json''"
    by auto
  with c show ?thesis by blast
qed






end
